theory Spec2Isabelle
  imports
    Complex_Main
    "HOL-Library.Char_ord"
    "HOL-Library.List_Lexorder"
    "HOL-Library.Product_Lexorder"
    "HOL-Library.Option_ord"
    "HOL-Library.Multiset"
begin

text \<open>
  The event model of \<open>sentry.models.event\<close> (\<open>EventCommon\<close>, \<open>SnubaEvent\<close>, \<open>Event\<close>)
  and the endpoint \<open>SentryAppInstallationExternalIssuesEndpoint.post\<close>, as functions on
  values. The source is Python 2: \<open>filter\<close> returns a list, strings are compared byte by
  byte, \<open>None\<close> is below every other value.
\<close>

section \<open>Python values\<close>

text \<open>
  The event payload, the analytical row and the request body are Python dictionaries of
  JSON-like values. A dictionary is an association list: lookup finds the first binding
  of a key, and a well-formed dictionary has no key twice.
\<close>

datatype pyval =
    PNone
  | PBool bool
  | PInt int
  | PStr string
  | PList "pyval list"
  | PDict "(string \<times> pyval) list"

type_synonym pydict = "(string \<times> pyval) list"

datatype error =
    AssertionError
  | AttributeError
  | DoesNotExist
  | IndexError
  | KeyError
  | NotImplementedError
  | TypeError
  | ValueError

text \<open>\<open>d.keys()\<close>, \<open>k in d\<close>, \<open>d.get(k)\<close>, \<open>d.get(k, default)\<close> and \<open>d[k]\<close>.\<close>

definition keys :: "pydict \<Rightarrow> string list" where
  "keys d = map fst d"

definition has_key :: "pydict \<Rightarrow> string \<Rightarrow> bool" where
  "has_key d k = (k \<in> set (keys d))"

definition dict_get_default :: "pydict \<Rightarrow> string \<Rightarrow> pyval \<Rightarrow> pyval" where
  "dict_get_default d k dflt = (case map_of d k of None \<Rightarrow> dflt | Some v \<Rightarrow> v)"

definition dict_get :: "pydict \<Rightarrow> string \<Rightarrow> pyval" where
  "dict_get d k = dict_get_default d k PNone"

definition dict_item :: "pydict \<Rightarrow> string \<Rightarrow> error + pyval" where
  "dict_item d k = (case map_of d k of None \<Rightarrow> Inl KeyError | Some v \<Rightarrow> Inr v)"

text \<open>
  An ordered dictionary: \<open>data[k] = v\<close> replaces the value of a key
  in place and appends a new key at the end.
\<close>

fun od_set :: "pydict \<Rightarrow> string \<Rightarrow> pyval \<Rightarrow> pydict" where
  "od_set [] k v = [(k, v)]"
| "od_set (p # ps) k v = (if fst p = k then (k, v) # ps else p # od_set ps k v)"

text \<open>Truth value testing: \<open>None\<close>, \<open>False\<close>, zero and every empty container are false.\<close>

fun truthy :: "pyval \<Rightarrow> bool" where
  "truthy PNone = False"
| "truthy (PBool b) = b"
| "truthy (PInt n) = (n \<noteq> 0)"
| "truthy (PStr s) = (s \<noteq> [])"
| "truthy (PList xs) = (xs \<noteq> [])"
| "truthy (PDict kvs) = (kvs \<noteq> [])"

text \<open>\<open>a or b\<close> on values.\<close>

definition py_or :: "pyval \<Rightarrow> pyval \<Rightarrow> pyval" where
  "py_or a b = (if truthy a then a else b)"

text \<open>Sequencing of a computation that may raise.\<close>

definition bind_err :: "error + 'a \<Rightarrow> ('a \<Rightarrow> error + 'b) \<Rightarrow> error + 'b" where
  "bind_err m f = (case m of Inl e \<Rightarrow> Inl e | Inr x \<Rightarrow> f x)"

subsection \<open>Rendering of values by \<open>str.format\<close>\<close>

definition digit_char :: "nat \<Rightarrow> char" where
  "digit_char n = ''0123456789'' ! n"

function string_of_nat :: "nat \<Rightarrow> string" where
  "string_of_nat n =
     (if n < 10 then [digit_char n]
      else string_of_nat (n div 10) @ [digit_char (n mod 10)])"
  by pat_completeness auto
termination
  by (relation "measure id") auto

definition string_of_int :: "int \<Rightarrow> string" where
  "string_of_int i = (if i < 0 then CHR ''-'' # string_of_nat (nat (- i)) else string_of_nat (nat i))"




section \<open>The two backing variants\<close>

text \<open>
  The relational variant is a row of the table \<open>sentry_message\<close> with its payload.
  Nullable columns are options; \<open>datetime\<close> counts seconds. In an instance, \<open>data\<close> is the
  \<open>EventDict\<close> its node field holds: the items of the payload under their canonical
  keys, as \<open>Event_load\<close> below builds them from the stored row.
\<close>

record Event =
  id' :: int
  group_id :: "int option"
  event_id :: "string option"
  project_id :: "int option"
  message :: string
  platform :: "string option"
  datetime :: int
  time_spent :: "int option"
  data :: pydict

text \<open>
  An analytical instance is its attribute dictionary (the row itself) and the node id its
  payload is bound to; the payload is read from the blob store when it is accessed.
\<close>

record SnubaEvent =
  snuba_values :: pydict
  node_id :: string

datatype event = Relational Event | Analytical SnubaEvent

section \<open>External collaborators\<close>

text \<open>
  What the event model calls but does not define: the hash function of \<open>hashlib\<close>, the
  interpreter's \<open>repr\<close> of a container, the option store, the blob store, the group
  table, the event type strategies, the grouping variant resolver, the date parser, the
  store normalizer, the interface parser and the table of canonical key names.
  Each is a field of the environment; the theorems hold for every environment.
\<close>

record env =
  md5_hexdigest :: "string \<Rightarrow> string"
  container_repr :: "pyval \<Rightarrow> string"
  sample_rate :: rat
  nodestore_get :: "string \<Rightarrow> pydict"
  group_culprit :: "pyval \<Rightarrow> error + pyval"
  get_title :: "pyval \<Rightarrow> pyval \<Rightarrow> error + pyval"
  get_location :: "pyval \<Rightarrow> pyval \<Rightarrow> error + pyval"
  get_grouping_variants_for_event :: "event \<Rightarrow> (string \<times> pyval) list"
  parse_date :: "pyval \<Rightarrow> error + pyval"
  normalize_event :: "pydict \<Rightarrow> pydict"
  interfaces_get_interfaces :: "pydict \<Rightarrow> bool \<Rightarrow> pydict"
  get_canonical_name :: "string \<Rightarrow> string"

text \<open>The text \<open>'{}'.format(v)\<close> puts for \<open>v\<close>.\<close>

definition py_format :: "env \<Rightarrow> pyval \<Rightarrow> string" where
  "py_format E v =
     (case v of
        PNone \<Rightarrow> ''None''
      | PBool b \<Rightarrow> (if b then ''True'' else ''False'')
      | PInt i \<Rightarrow> string_of_int i
      | PStr s \<Rightarrow> s
      | _ \<Rightarrow> container_repr E v)"

section \<open>The shared contract: node ids\<close>

text \<open>\<open>EventCommon.generate_node_id\<close>: \<open>md5('{}:{}'.format(project_id, event_id)).hexdigest()\<close>.\<close>

definition generate_node_id :: "env \<Rightarrow> pyval \<Rightarrow> pyval \<Rightarrow> string" where
  "generate_node_id E pid eid =
     md5_hexdigest E (py_format E pid @ '':'' @ py_format E eid)"

section \<open>The analytical variant\<close>

definition selected_columns :: "string list" where
  "selected_columns =
     [''event_id'', ''project_id'', ''message'', ''title'', ''type'', ''location'',
      ''culprit'', ''timestamp'', ''group_id'', ''platform'',
      ''tags.key'', ''tags.value'',
      ''user_id'', ''username'', ''ip_address'', ''email'']"

text \<open>Attribute access \<open>self.name\<close> on the instance dictionary.\<close>

definition snuba_attr :: "SnubaEvent \<Rightarrow> string \<Rightarrow> error + pyval" where
  "snuba_attr e name =
     (case map_of (snuba_values e) name of None \<Rightarrow> Inl AttributeError | Some v \<Rightarrow> Inr v)"

text \<open>
  \<open>SnubaEvent.__init__\<close>: the assertion on the key set, then the node id from the row's
  own \<open>project_id\<close> and \<open>event_id\<close>.
\<close>

definition SnubaEvent_init :: "env \<Rightarrow> pydict \<Rightarrow> error + SnubaEvent" where
  "SnubaEvent_init E row =
     (if set (keys row) = set selected_columns
      then Inr \<lparr> snuba_values = row,
                 node_id = generate_node_id E (dict_get row ''project_id'') (dict_get row ''event_id'') \<rparr>
      else Inl AssertionError)"

definition SnubaEvent_data :: "env \<Rightarrow> SnubaEvent \<Rightarrow> pydict" where
  "SnubaEvent_data E e = nodestore_get E (node_id e)"

definition SnubaEvent_id :: "SnubaEvent \<Rightarrow> error + pyval" where
  "SnubaEvent_id e = snuba_attr e ''event_id''"

definition SnubaEvent_next_event :: "SnubaEvent \<Rightarrow> SnubaEvent option" where
  "SnubaEvent_next_event e = None"

definition SnubaEvent_prev_event :: "SnubaEvent \<Rightarrow> SnubaEvent option" where
  "SnubaEvent_prev_event e = None"

definition SnubaEvent_save :: "SnubaEvent \<Rightarrow> error + unit" where
  "SnubaEvent_save e = Inl NotImplementedError"

definition SnubaEvent_time_spent :: "SnubaEvent \<Rightarrow> pyval" where
  "SnubaEvent_time_spent e = PNone"

section \<open>Iteration, unpacking and sorting\<close>

text \<open>
  What a \<open>for\<close> loop, \<open>zip\<close> and \<open>len\<close> see of a value: the items of a list, the
  characters of a string (each a string of length one), the keys of a dictionary. Any
  other value is not iterable.
\<close>

fun py_iter :: "pyval \<Rightarrow> error + pyval list" where
  "py_iter (PList xs) = Inr xs"
| "py_iter (PStr s) = Inr (map (\<lambda>c. PStr [c]) s)"
| "py_iter (PDict kvs) = Inr (map (\<lambda>kv. PStr (fst kv)) kvs)"
| "py_iter v = Inl TypeError"

text \<open>The target list \<open>t, v = x\<close>: exactly two items, else \<open>ValueError\<close>.\<close>

definition unpack2 :: "pyval \<Rightarrow> error + (pyval \<times> pyval)" where
  "unpack2 x =
     (case py_iter x of
        Inl e \<Rightarrow> Inl e
      | Inr [t, v] \<Rightarrow> Inr (t, v)
      | Inr _ \<Rightarrow> Inl ValueError)"

text \<open>Unpacking every item in turn: the first failure is the one raised.\<close>

fun unpack_all :: "pyval list \<Rightarrow> error + (pyval \<times> pyval) list" where
  "unpack_all [] = Inr []"
| "unpack_all (x # xs) =
     (case unpack2 x of
        Inl e \<Rightarrow> Inl e
      | Inr p \<Rightarrow> (case unpack_all xs of Inl e \<Rightarrow> Inl e | Inr ps \<Rightarrow> Inr (p # ps)))"

text \<open>
  The interpreter's order on values: \<open>None\<close> is below every other value; numbers
  (booleans among them) compare by value and are below every container and string; of
  two values of other types the one whose type name is first is below (\<open>dict\<close>, \<open>list\<close>,
  \<open>str\<close>); strings compare byte by byte; lists compare item by item, a proper prefix being
  below; dictionaries compare by length first, then by their items in the order of the
  keys. The sort key of a value is a list of tokens whose lexicographic order is that
  order: a scalar is one token, a container is an opening token, the keys of its items
  and a closing token that is below every other token. Values that are equal for the
  interpreter (\<open>True\<close> and \<open>1\<close>) have the same key.
\<close>

type_synonym sort_token = "nat \<times> int \<times> string"

fun py_sort_key :: "pyval \<Rightarrow> sort_token list" where
  "py_sort_key PNone = [(1, 0, [])]"
| "py_sort_key (PBool b) = [(2, (if b then 1 else 0), [])]"
| "py_sort_key (PInt i) = [(2, i, [])]"
| "py_sort_key (PStr s) = [(5, 0, s)]"
| "py_sort_key (PList xs) = (4, 0, []) # concat (map py_sort_key xs) @ [(0, 0, [])]"
| "py_sort_key (PDict kvs) =
     (3, int (length kvs), []) #
     concat (map (\<lambda>kt. (5, 0, fst kt) # snd kt)
               (sort_key fst (map (\<lambda>kv. (fst kv, py_sort_key (snd kv))) kvs)))
     @ [(0, 0, [])]"

definition pair_key :: "pyval \<times> pyval \<Rightarrow> sort_token list \<times> sort_token list" where
  "pair_key p = (py_sort_key (fst p), py_sort_key (snd p))"

text \<open>
  \<open>sorted\<close> on a list of pairs: a stable sort, by the first component, then by the
  second.
\<close>

definition sorted_pairs :: "(pyval \<times> pyval) list \<Rightarrow> (pyval \<times> pyval) list" where
  "sorted_pairs ps = sort_key pair_key ps"

section \<open>The shared contract: tags and hashes\<close>

text \<open>
  Modelled from the spec: \<open>get_path\<close> of \<open>sentry.utils.safe\<close> is not among the sources.
  It walks the payload along the given keys and gives \<open>None\<close> when a key is missing or the
  value on the way is no dictionary; with \<open>filter=True\<close> a resulting non-empty list loses
  its \<open>None\<close> items.
\<close>

fun get_path :: "pyval \<Rightarrow> string list \<Rightarrow> pyval" where
  "get_path v [] = v"
| "get_path (PDict d) (p # ps) = (case map_of d p of None \<Rightarrow> PNone | Some v \<Rightarrow> get_path v ps)"
| "get_path v (p # ps) = PNone"

definition get_path_filter :: "pyval \<Rightarrow> string list \<Rightarrow> pyval" where
  "get_path_filter v path =
     (case get_path v path of
        PList xs \<Rightarrow> PList (filter (\<lambda>x. x \<noteq> PNone) xs)
      | r \<Rightarrow> r)"

text \<open>
  \<open>EventCommon.tags\<close>: the pairs of \<open>get_path(data, 'tags', filter=True) or ()\<close> with
  neither component \<open>None\<close>, sorted; a \<open>ValueError\<close> of the unpacking gives the empty
  list, any other exception propagates.
\<close>

definition EventCommon_tags :: "pydict \<Rightarrow> error + (pyval \<times> pyval) list" where
  "EventCommon_tags d =
     (case py_iter (py_or (get_path_filter (PDict d) [''tags'']) (PList [])) of
        Inl e \<Rightarrow> Inl e
      | Inr items \<Rightarrow>
          (case unpack_all items of
             Inl ValueError \<Rightarrow> Inr []
           | Inl e \<Rightarrow> Inl e
           | Inr ps \<Rightarrow> Inr (sorted_pairs (filter (\<lambda>p. fst p \<noteq> PNone \<and> snd p \<noteq> PNone) ps))))"

text \<open>
  \<open>SnubaEvent.tags\<close>: the two parallel columns zipped and sorted, or the empty list when
  one is missing, empty or of another length.
\<close>

definition SnubaEvent_tags :: "SnubaEvent \<Rightarrow> error + (pyval \<times> pyval) list" where
  "SnubaEvent_tags e =
     (let ks = dict_get (snuba_values e) ''tags.key'';
          vs = dict_get (snuba_values e) ''tags.value''
      in if truthy ks \<and> truthy vs
         then (case py_iter ks of
                 Inl err \<Rightarrow> Inl err
               | Inr kl \<Rightarrow>
                   (case py_iter vs of
                      Inl err \<Rightarrow> Inl err
                    | Inr vl \<Rightarrow>
                        if length kl = length vl then Inr (sorted_pairs (zip kl vl)) else Inr []))
         else Inr [])"

text \<open>The payload and the tags of an event of either variant.\<close>

fun data_of :: "env \<Rightarrow> event \<Rightarrow> pydict" where
  "data_of E (Relational r) = data r"
| "data_of E (Analytical s) = SnubaEvent_data E s"

fun tags :: "env \<Rightarrow> event \<Rightarrow> error + (pyval \<times> pyval) list" where
  "tags E (Relational r) = EventCommon_tags (data r)"
| "tags E (Analytical s) = SnubaEvent_tags s"

text \<open>
  \<open>EventCommon.get_hashes\<close>: the stored value unless it is \<open>None\<close>, else the true
  (\<open>filter(None, ...)\<close>) hashes of the variants, in the order of \<open>values()\<close>.
\<close>

definition get_hashes :: "env \<Rightarrow> event \<Rightarrow> pyval" where
  "get_hashes E ev =
     (let hashes = dict_get (data_of E ev) ''hashes''
      in if hashes \<noteq> PNone then hashes
         else PList (filter truthy (map snd (get_grouping_variants_for_event E ev))))"

text \<open>The subscription \<open>x[0]\<close>.\<close>

fun index0 :: "pyval \<Rightarrow> error + pyval" where
  "index0 (PList []) = Inl IndexError"
| "index0 (PList (x # xs)) = Inr x"
| "index0 (PStr []) = Inl IndexError"
| "index0 (PStr (c # cs)) = Inr (PStr [c])"
| "index0 (PDict kvs) = Inl KeyError"
| "index0 v = Inl TypeError"

definition get_primary_hash :: "env \<Rightarrow> event \<Rightarrow> error + pyval" where
  "get_primary_hash E ev = index0 (get_hashes E ev)"

section \<open>The payload normalization gate\<close>

text \<open>
  \<open>int(digest, 16)\<close> on a digest, which is a text of hexadecimal digits; any other text
  is a \<open>ValueError\<close>.
\<close>

definition hex_digit :: "char \<Rightarrow> nat option" where
  "hex_digit c = map_of (zip ''0123456789abcdef'' [0..<16] @ zip ''ABCDEF'' [10..<16]) c"

fun hex_value :: "nat \<Rightarrow> string \<Rightarrow> nat option" where
  "hex_value acc [] = Some acc"
| "hex_value acc (c # cs) =
     (case hex_digit c of None \<Rightarrow> None | Some d \<Rightarrow> hex_value (16 * acc + d) cs)"

definition int_base16 :: "string \<Rightarrow> error + nat" where
  "int_base16 s =
     (if s = [] then Inl ValueError
      else (case hex_value 0 s of None \<Rightarrow> Inl ValueError | Some n \<Rightarrow> Inr n))"

text \<open>
  \<open>_should_skip_to_python\<close>: false without an event id, false at sample rate zero, else
  decided by the hash of the event id (\<open>md5\<close> of a value that is no string is a
  \<open>TypeError\<close>). The sample rate is a rational number here.
\<close>

definition should_skip_to_python :: "env \<Rightarrow> pydict \<Rightarrow> error + bool" where
  "should_skip_to_python E event_data =
     (let eid = dict_get event_data ''event_id''
      in if \<not> truthy eid then Inr False
         else if sample_rate E = 0 then Inr False
         else (case eid of
                 PStr s \<Rightarrow>
                   (case int_base16 (md5_hexdigest E s) of
                      Inl e \<Rightarrow> Inl e
                    | Inr h \<Rightarrow> Inr (of_nat (h mod 10 ^ 8) \<le> sample_rate E * 10 ^ 8))
               | _ \<Rightarrow> Inl TypeError))"

text \<open>
  \<open>EventDict.__init__\<close>: the payload the dictionary is built from (normalized again when
  the gate says so) and the value reported as \<open>rust.renormalized\<close>.
\<close>

definition EventDict_init :: "env \<Rightarrow> pydict \<Rightarrow> error + (pydict \<times> bool)" where
  "EventDict_init E d =
     (case should_skip_to_python E d of
        Inl e \<Rightarrow> Inl e
      | Inr rust_renormalized \<Rightarrow>
          Inr (if rust_renormalized then normalize_event E d else d, rust_renormalized))"

text \<open>\<open>EventCommon.get_interfaces\<close>: the interface parser is told what the gate says.\<close>

definition get_interfaces :: "env \<Rightarrow> event \<Rightarrow> error + pydict" where
  "get_interfaces E ev =
     (case should_skip_to_python E (data_of E ev) of
        Inl e \<Rightarrow> Inl e
      | Inr was_renormalized \<Rightarrow> Inr (interfaces_get_interfaces E (data_of E ev) was_renormalized))"

section \<open>The relational variant: the payload field\<close>




section \<open>The relational variant: neighbours\<close>






section \<open>The shared contract: the external representation\<close>

text \<open>The attributes of \<open>self\<close> that \<open>as_dict\<close> reads, for either variant.\<close>

definition of_opt_int :: "int option \<Rightarrow> pyval" where
  "of_opt_int x = (case x of None \<Rightarrow> PNone | Some i \<Rightarrow> PInt i)"

definition of_opt_str :: "string option \<Rightarrow> pyval" where
  "of_opt_str x = (case x of None \<Rightarrow> PNone | Some s \<Rightarrow> PStr s)"

fun attr_event_id :: "event \<Rightarrow> error + pyval" where
  "attr_event_id (Relational r) = Inr (of_opt_str (event_id r))"
| "attr_event_id (Analytical s) = snuba_attr s ''event_id''"

fun attr_project_id :: "event \<Rightarrow> error + pyval" where
  "attr_project_id (Relational r) = Inr (of_opt_int (project_id r))"
| "attr_project_id (Analytical s) = snuba_attr s ''project_id''"

fun attr_group_id :: "event \<Rightarrow> error + pyval" where
  "attr_group_id (Relational r) = Inr (of_opt_int (group_id r))"
| "attr_group_id (Analytical s) = snuba_attr s ''group_id''"

fun attr_platform :: "event \<Rightarrow> error + pyval" where
  "attr_platform (Relational r) = Inr (of_opt_str (platform r))"
| "attr_platform (Analytical s) = snuba_attr s ''platform''"

fun attr_datetime :: "env \<Rightarrow> event \<Rightarrow> error + pyval" where
  "attr_datetime E (Relational r) = Inr (PInt (datetime r))"
| "attr_datetime E (Analytical s) = bind_err (snuba_attr s ''timestamp'') (parse_date E)"

fun attr_time_spent :: "event \<Rightarrow> pyval" where
  "attr_time_spent (Relational r) = of_opt_int (time_spent r)"
| "attr_time_spent (Analytical s) = SnubaEvent_time_spent s"

text \<open>\<open>get_tag\<close>: the value of the first pair with that key, else \<open>None\<close>.\<close>

fun get_tag_in :: "(pyval \<times> pyval) list \<Rightarrow> string \<Rightarrow> pyval" where
  "get_tag_in [] key = PNone"
| "get_tag_in ((t, v) # ts) key = (if t = PStr key then v else get_tag_in ts key)"

definition get_tag :: "env \<Rightarrow> event \<Rightarrow> string \<Rightarrow> error + pyval" where
  "get_tag E ev key = (case tags E ev of Inl e \<Rightarrow> Inl e | Inr ts \<Rightarrow> Inr (get_tag_in ts key))"

text \<open>\<open>real_message\<close>, and \<open>title\<close>, \<open>location\<close> with the override of the analytical variant.\<close>

definition real_message :: "pydict \<Rightarrow> pyval" where
  "real_message d =
     py_or (get_path (PDict d) [''logentry'', ''formatted''])
       (py_or (get_path (PDict d) [''logentry'', ''message'']) (PStr []))"

definition get_event_type :: "pydict \<Rightarrow> pyval" where
  "get_event_type d = dict_get_default d ''type'' (PStr ''default'')"

definition get_event_metadata :: "pydict \<Rightarrow> pyval" where
  "get_event_metadata d = py_or (dict_get d ''metadata'') (PDict [])"

fun title :: "env \<Rightarrow> event \<Rightarrow> error + pyval" where
  "title E (Relational r) = get_title E (get_event_type (data r)) (get_event_metadata (data r))"
| "title E (Analytical s) = dict_item (snuba_values s) ''title''"

fun location :: "env \<Rightarrow> event \<Rightarrow> error + pyval" where
  "location E (Relational r) = get_location E (get_event_type (data r)) (get_event_metadata (data r))"
| "location E (Analytical s) = dict_item (snuba_values s) ''location''"

text \<open>
  \<open>k.split('sentry:', 1)[-1]\<close>: the text after the first occurrence of the separator,
  or the whole text when the separator does not occur. A key that is no string has no
  \<open>split\<close>.
\<close>

fun after_first :: "string \<Rightarrow> string \<Rightarrow> string option" where
  "after_first sep [] = (if sep = [] then Some [] else None)"
| "after_first sep (c # cs) =
     (if take (length sep) (c # cs) = sep then Some (drop (length sep) (c # cs))
      else after_first sep cs)"

definition split_last :: "string \<Rightarrow> string \<Rightarrow> string" where
  "split_last sep s = (case after_first sep s of None \<Rightarrow> s | Some rest \<Rightarrow> rest)"

fun strip_sentry_prefix :: "(pyval \<times> pyval) list \<Rightarrow> error + pyval list" where
  "strip_sentry_prefix [] = Inr []"
| "strip_sentry_prefix ((PStr k, v) # ts) =
     (case strip_sentry_prefix ts of
        Inl e \<Rightarrow> Inl e
      | Inr rest \<Rightarrow> Inr (PList [PStr (split_last ''sentry:'' k), v] # rest))"
| "strip_sentry_prefix ((k, v) # ts) = Inl AttributeError"

text \<open>The redaction of the \<open>sdk\<close> value; a value without \<open>iteritems\<close> is an error.\<close>

definition strip_client_ip :: "pyval \<Rightarrow> error + pyval" where
  "strip_client_ip v =
     (case v of
        PDict kvs \<Rightarrow> Inr (PDict (filter (\<lambda>kv. fst kv \<noteq> ''client_ip'') kvs))
      | _ \<Rightarrow> Inl AttributeError)"

text \<open>The loop over the sorted items of the payload.\<close>

fun as_dict_loop :: "pydict \<Rightarrow> (string \<times> pyval) list \<Rightarrow> error + pydict" where
  "as_dict_loop out [] = Inr out"
| "as_dict_loop out ((k, v) # items) =
     (if has_key out k then as_dict_loop out items
      else if k = ''sdk''
           then (case strip_client_ip v of
                   Inl e \<Rightarrow> Inl e
                 | Inr v' \<Rightarrow> as_dict_loop (od_set out k v') items)
           else as_dict_loop (od_set out k v) items)"

definition first_class_keys :: "string list" where
  "first_class_keys =
     [''event_id'', ''project'', ''release'', ''dist'', ''platform'', ''message'',
      ''datetime'', ''time_spent'', ''tags'']"

text \<open>
  \<open>EventCommon.as_dict\<close>. The nine assignments to the empty ordered dictionary are the
  list of their pairs; the payload's items are sorted by their keys, which are unique;
  the culprit of the group is looked up only when the dictionary has none.
\<close>

definition as_dict :: "env \<Rightarrow> event \<Rightarrow> error + pydict" where
  "as_dict E ev =
     bind_err (attr_event_id ev) (\<lambda>eid.
     bind_err (attr_project_id ev) (\<lambda>pid.
     bind_err (get_tag E ev ''sentry:release'') (\<lambda>release.
     bind_err (get_tag E ev ''sentry:dist'') (\<lambda>dist.
     bind_err (attr_platform ev) (\<lambda>plat.
     bind_err (attr_datetime E ev) (\<lambda>dt.
     bind_err (tags E ev) (\<lambda>ts.
     bind_err (strip_sentry_prefix ts) (\<lambda>tl.
     bind_err (as_dict_loop
                 [(''event_id'', eid), (''project'', pid), (''release'', release),
                  (''dist'', dist), (''platform'', plat),
                  (''message'', real_message (data_of E ev)), (''datetime'', dt),
                  (''time_spent'', attr_time_spent ev), (''tags'', PList tl)]
                 (sort_key fst (data_of E ev))) (\<lambda>out.
     bind_err (if dict_get out ''culprit'' = PNone
               then bind_err (attr_group_id ev) (\<lambda>gid.
                    bind_err (group_culprit E gid) (\<lambda>c. Inr (od_set out ''culprit'' c)))
               else Inr out) (\<lambda>out.
     bind_err (title E ev) (\<lambda>t.
     bind_err (location E ev) (\<lambda>l.
       Inr (od_set (od_set out ''title'' t) ''location'' l)))))))))))))"

section \<open>The external issue endpoint\<close>

text \<open>
  The collaborators of the endpoint: the feature switch of the organization, the group
  lookup within the organization (\<open>None\<close> for \<open>DoesNotExist\<close>), the issue link creator
  and the serializer. The second component of the result of \<open>post\<close> lists the calls made
  to the creator.
\<close>

datatype response = Response (status: nat) (body: pyval)

record issue_link_call =
  call_group :: pyval
  call_action :: pyval
  call_fields :: pydict
  call_uri :: pyval

record endpoint_env =
  features_has :: bool
  find_group :: "pyval \<Rightarrow> pyval option"
  IssueLinkCreator_run :: "issue_link_call \<Rightarrow> error + pyval"
  serialize :: "pyval \<Rightarrow> pyval"

definition dict_del :: "pydict \<Rightarrow> string \<Rightarrow> pydict" where
  "dict_del d k = filter (\<lambda>kv. fst kv \<noteq> k) d"

definition post :: "endpoint_env \<Rightarrow> pydict \<Rightarrow> response \<times> issue_link_call list" where
  "post V request_DATA =
     (if \<not> features_has V then (Response 404 PNone, [])
      else if \<not> set [''groupId'', ''action'', ''uri''] \<subseteq> set (keys request_DATA)
      then (Response 400 PNone, [])
      else
        (let gid = dict_get request_DATA ''groupId'';
             d1 = dict_del request_DATA ''groupId''
         in case find_group V gid of
              None \<Rightarrow> (Response 404 PNone, [])
            | Some grp \<Rightarrow>
                (let action = dict_get d1 ''action'';
                     d2 = dict_del d1 ''action'';
                     uri = dict_get d2 ''uri'';
                     d3 = dict_del d2 ''uri'';
                     call = \<lparr> call_group = grp, call_action = action,
                              call_fields = d3, call_uri = uri \<rparr>
                 in case IssueLinkCreator_run V call of
                      Inl e \<Rightarrow>
                        (Response 400
                           (PDict [(''error'', PStr ''Error communicating with Sentry App service'')]),
                         [call])
                    | Inr external_issue \<Rightarrow> (Response 200 (serialize V external_issue), [call]))))"

section \<open>Example inputs\<close>

text \<open>A table of canonical names: the legacy paths of the interfaces, and \<open>message\<close>.\<close>

definition legacy_names :: "(string \<times> string) list" where
  "legacy_names =
     [(''sentry.interfaces.Exception'', ''exception''),
      (''sentry.interfaces.Message'', ''logentry''),
      (''message'', ''logentry''),
      (''sentry.interfaces.Stacktrace'', ''stacktrace''),
      (''sentry.interfaces.Template'', ''template''),
      (''sentry.interfaces.Http'', ''request''),
      (''sentry.interfaces.User'', ''user''),
      (''sentry.interfaces.Csp'', ''csp''),
      (''sentry.interfaces.Breadcrumbs'', ''breadcrumbs''),
      (''sentry.interfaces.Contexts'', ''contexts''),
      (''sentry.interfaces.Threads'', ''threads''),
      (''sentry.interfaces.DebugMeta'', ''debug_meta'')]"

definition example_canonical_name :: "string \<Rightarrow> string" where
  "example_canonical_name k = (case map_of legacy_names k of None \<Rightarrow> k | Some c \<Rightarrow> c)"

text \<open>An environment with the identity in place of the hash, and a complete row.\<close>

definition env0 :: env where
  "env0 = \<lparr> md5_hexdigest = (\<lambda>s. s),
            container_repr = (\<lambda>v. ''[]''),
            sample_rate = 0,
            nodestore_get = (\<lambda>n. []),
            group_culprit = (\<lambda>g. Inr (PStr ''culprit of group'')),
            get_title = (\<lambda>t m. Inr (PStr ''a title'')),
            get_location = (\<lambda>t m. Inr PNone),
            get_grouping_variants_for_event = (\<lambda>ev. [(''app'', PNone), (''system'', PStr ''abc'')]),
            parse_date = (\<lambda>v. Inr v),
            normalize_event = (\<lambda>d. d),
            interfaces_get_interfaces = (\<lambda>d r. []),
            get_canonical_name = example_canonical_name \<rparr>"

definition full_row :: pydict where
  "full_row =
     [(''event_id'', PStr ''abc''), (''project_id'', PInt 42), (''message'', PStr ''m''),
      (''title'', PStr ''t''), (''type'', PStr ''default''), (''location'', PNone),
      (''culprit'', PStr ''c''), (''timestamp'', PStr ''2019-01-01T00:00:00+00:00''),
      (''group_id'', PInt 7), (''platform'', PStr ''python''),
      (''tags.key'', PList [PStr ''a'']), (''tags.value'', PList [PNone]),
      (''user_id'', PNone), (''username'', PNone), (''ip_address'', PNone), (''email'', PNone)]"

text \<open>A stored event with a given payload, and instances built from rows.\<close>

definition example_event :: "pydict \<Rightarrow> Event" where
  "example_event d =
     \<lparr> id' = 1, group_id = Some 7, event_id = Some ''abc'', project_id = Some 42,
       message = ''m'', platform = Some ''python'', datetime = 100, time_spent = None,
       data = d \<rparr>"

definition example_snuba :: SnubaEvent where
  "example_snuba = \<lparr> snuba_values = full_row, node_id = ''42:abc'' \<rparr>"





text \<open>An environment whose gate is open: sample rate one.\<close>

definition env_always :: env where
  "env_always = env0 \<lparr> md5_hexdigest := (\<lambda>s. ''00ff''), sample_rate := 1 \<rparr>"




text \<open>A payload with a client address in its \<open>sdk\<close>, and requests to the endpoint.\<close>

definition example_payload :: pydict where
  "example_payload =
     [(''sdk'', PDict [(''name'', PStr ''raven''), (''client_ip'', PStr ''10.0.0.1'')]),
      (''message'', PStr ''shadowed''),
      (''culprit'', PStr ''app.main''),
      (''tags'', PList [PList [PStr ''sentry:release'', PStr ''1.0'']]),
      (''extra'', PDict [])]"

definition example_as_dict :: pydict where
  "example_as_dict =
     [(''event_id'', PStr ''abc''), (''project'', PInt 42),
      (''release'', PStr ''1.0''), (''dist'', PNone),
      (''platform'', PStr ''python''), (''message'', PStr []),
      (''datetime'', PInt 100), (''time_spent'', PNone),
      (''tags'', PList [PList [PStr ''release'', PStr ''1.0'']]),
      (''culprit'', PStr ''app.main''), (''extra'', PDict []),
      (''sdk'', PDict [(''name'', PStr ''raven'')]),
      (''title'', PStr ''a title''), (''location'', PNone)]"

definition endpoint_off :: endpoint_env where
  "endpoint_off = \<lparr> features_has = False, find_group = (\<lambda>g. Some g),
                     IssueLinkCreator_run = (\<lambda>c. Inr (PStr ''issue'')), serialize = (\<lambda>v. v) \<rparr>"

definition endpoint_on :: endpoint_env where
  "endpoint_on = endpoint_off \<lparr> features_has := True \<rparr>"

definition example_body :: pydict where
  "example_body = [(''groupId'', PInt 7), (''action'', PStr ''create''), (''title'', PStr ''t'')]"

section \<open>Construction of the analytical variant\<close>

lemma keys_full_row: "set (keys full_row) = set selected_columns"
  by (simp add: keys_def full_row_def selected_columns_def insert_commute)

text \<open>
  C3. Constructing a \<open>SnubaEvent\<close> from a row that lacks one of the expected columns
  fails (the assertion), and constructing it from a row whose key set is the set of the
  expected columns succeeds, with the row as the attributes of the instance.
\<close>

theorem SnubaEvent_init_columns:
  "(c \<in> set selected_columns \<and> c \<notin> set (keys row) \<longrightarrow>
      SnubaEvent_init E row = Inl AssertionError) \<and>
   (set (keys row) = set selected_columns \<longrightarrow>
      (\<exists>e. SnubaEvent_init E row = Inr e \<and> snuba_values e = row))"
  by (auto simp: SnubaEvent_init_def)

theorem SnubaEvent_init_columns_witness:
  "SnubaEvent_init env0 (tl full_row) = Inl AssertionError \<and>
   (\<exists>e. SnubaEvent_init env0 full_row = Inr e \<and> snuba_values e = full_row)"
proof -
  have a: "''event_id'' \<in> set selected_columns \<and> ''event_id'' \<notin> set (keys (tl full_row))"
    by (simp add: selected_columns_def keys_def full_row_def)
  from a SnubaEvent_init_columns [of "''event_id''" "tl full_row" env0]
       keys_full_row SnubaEvent_init_columns [of "''event_id''" full_row env0]
  show ?thesis by blast
qed

lemma init_full_row: "SnubaEvent_init env0 full_row = Inr example_snuba"
  unfolding SnubaEvent_init_def
  by (simp add: keys_full_row example_snuba_def)
     (simp add: generate_node_id_def py_format_def env0_def dict_get_def dict_get_default_def
        full_row_def string_of_int_def digit_char_def)



section \<open>The analytical variant is read-only\<close>

text \<open>
  C6. Every \<open>SnubaEvent\<close> instance is read-only: \<open>save\<close> raises \<open>NotImplementedError\<close>
  whatever the instance, \<open>next_event\<close> and \<open>prev_event\<close> are \<open>None\<close>, and \<open>id\<close> is the
  attribute \<open>event_id\<close>: for an instance built from a row, the value the row holds in its
  \<open>event_id\<close> column.
\<close>

theorem SnubaEvent_read_only:
  "SnubaEvent_save e = Inl NotImplementedError \<and>
   SnubaEvent_next_event e = None \<and>
   SnubaEvent_prev_event e = None \<and>
   SnubaEvent_id e = snuba_attr e ''event_id'' \<and>
   (SnubaEvent_init E row = Inr e \<longrightarrow>
      (\<exists>v. map_of row ''event_id'' = Some v \<and> SnubaEvent_id e = Inr v))"
proof -
  have "\<exists>v. map_of row ''event_id'' = Some v" if "set (keys row) = set selected_columns"
  proof -
    have "''event_id'' \<in> set (keys row)" using that by (simp add: selected_columns_def)
    then have "''event_id'' \<in> dom (map_of row)" by (simp add: keys_def dom_map_of_conv_image_fst)
    then show ?thesis by blast
  qed
  then show ?thesis
    by (auto simp: SnubaEvent_save_def SnubaEvent_next_event_def SnubaEvent_prev_event_def
        SnubaEvent_id_def snuba_attr_def SnubaEvent_init_def split: if_splits)
qed

theorem SnubaEvent_read_only_witness:
  "SnubaEvent_save example_snuba = Inl NotImplementedError \<and>
   SnubaEvent_next_event example_snuba = None \<and>
   SnubaEvent_prev_event example_snuba = None \<and>
   SnubaEvent_id example_snuba = Inr (PStr ''abc'')"
proof -
  have m: "map_of full_row ''event_id'' = Some (PStr ''abc'')" by (simp add: full_row_def)
  from SnubaEvent_read_only [of example_snuba env0 full_row] init_full_row m
  show ?thesis by auto
qed

section \<open>Node ids\<close>










section \<open>Hashes\<close>

text \<open>
  C2, as the code has it. When the payload holds a value other than \<open>None\<close> under
  \<open>hashes\<close>, \<open>get_hashes\<close> returns that value as it is; when the key is missing or holds
  \<open>None\<close>, it returns the hashes of the grouping variants that are true (neither
  \<open>None\<close> nor empty), in the order of the resolver's result.
\<close>

theorem get_hashes_stored_or_computed:
  "(dict_get (data_of E ev) ''hashes'' \<noteq> PNone \<longrightarrow>
      get_hashes E ev = dict_get (data_of E ev) ''hashes'') \<and>
   (dict_get (data_of E ev) ''hashes'' = PNone \<longrightarrow>
      get_hashes E ev = PList (filter truthy (map snd (get_grouping_variants_for_event E ev))))"
  by (simp add: get_hashes_def Let_def)

theorem get_hashes_stored_or_computed_witness:
  "get_hashes env0 (Relational (example_event [(''hashes'', PList [PStr ''h1'', PStr ''h2''])]))
     = PList [PStr ''h1'', PStr ''h2''] \<and>
   get_hashes env0 (Relational (example_event [])) = PList [PStr ''abc'']"
proof -
  have a: "dict_get (data_of env0 (Relational (example_event [(''hashes'', PList [PStr ''h1'', PStr ''h2''])]))) ''hashes''
             = PList [PStr ''h1'', PStr ''h2'']"
    by (simp add: example_event_def dict_get_def dict_get_default_def)
  have b: "dict_get (data_of env0 (Relational (example_event []))) ''hashes'' = PNone"
    by (simp add: example_event_def dict_get_def dict_get_default_def)
  have c: "filter truthy (map snd (get_grouping_variants_for_event env0 (Relational (example_event []))))
             = [PStr ''abc'']"
    by (simp add: env0_def)
  from a b c
       get_hashes_stored_or_computed [of env0 "Relational (example_event [(''hashes'', PList [PStr ''h1'', PStr ''h2''])])"]
       get_hashes_stored_or_computed [of env0 "Relational (example_event [])"]
  show ?thesis by simp
qed

text \<open>
  Presence of the key is not enough: for a payload that contains the key \<open>hashes\<close> with
  the value \<open>None\<close>, the stored value is not returned, the variants' hashes are.
\<close>

theorem get_hashes_null_counterexample:
  "has_key (data_of env0 (Relational (example_event [(''hashes'', PNone)]))) ''hashes'' \<and>
   map_of (data_of env0 (Relational (example_event [(''hashes'', PNone)]))) ''hashes'' = Some PNone \<and>
   get_hashes env0 (Relational (example_event [(''hashes'', PNone)])) = PList [PStr ''abc'']"
  by (simp add: has_key_def keys_def example_event_def get_hashes_def dict_get_def
      dict_get_default_def env0_def)

text \<open>
  C7. When the hash list of an event is empty, \<open>get_primary_hash\<close> raises \<open>IndexError\<close>;
  when it has at least one hash, \<open>get_primary_hash\<close> returns the first of \<open>get_hashes\<close>.
\<close>

theorem get_primary_hash_first:
  "(get_hashes E ev = PList [] \<longrightarrow> get_primary_hash E ev = Inl IndexError) \<and>
   (get_hashes E ev = PList (h # hs) \<longrightarrow> get_primary_hash E ev = Inr h)"
  by (simp add: get_primary_hash_def)

theorem get_primary_hash_first_witness:
  "get_primary_hash env0 (Relational (example_event [(''hashes'', PList [])])) = Inl IndexError \<and>
   get_primary_hash env0 (Relational (example_event [])) = Inr (PStr ''abc'')"
proof -
  have a: "get_hashes env0 (Relational (example_event [(''hashes'', PList [])])) = PList []"
    by (simp add: get_hashes_def example_event_def dict_get_def dict_get_default_def)
  have b: "get_hashes env0 (Relational (example_event [])) = PList (PStr ''abc'' # [])"
    by (simp add: get_hashes_def example_event_def dict_get_def dict_get_default_def env0_def)
  from a b get_primary_hash_first [of env0 "Relational (example_event [(''hashes'', PList [])])"]
       get_primary_hash_first [of env0 "Relational (example_event [])" "PStr ''abc''" "[]"]
  show ?thesis by blast
qed

section \<open>Tags\<close>




text \<open>The order of the keys on scalars.\<close>

lemma py_sort_key_strings: "py_sort_key (PStr s) \<le> py_sort_key (PStr t) \<longleftrightarrow> s \<le> t"
  by auto

lemma py_sort_key_numbers: "py_sort_key (PInt i) \<le> py_sort_key (PInt j) \<longleftrightarrow> i \<le> j"
  by auto

lemma py_sort_key_None_least: "v \<noteq> PNone \<Longrightarrow> py_sort_key PNone < py_sort_key v"
  by (cases v) simp_all

lemma py_sort_key_number_string: "py_sort_key (PInt i) < py_sort_key (PStr s)"
  by simp





























section \<open>The normalization gate\<close>

lemma dict_get_missing: "\<not> has_key d k \<Longrightarrow> dict_get d k = PNone"
  by (simp add: has_key_def keys_def dict_get_def dict_get_default_def map_of_eq_None_iff [THEN iffD2])

text \<open>
  C10. For every payload whose \<open>event_id\<close> is missing or empty (or false in any other
  way), and for every payload when the sample rate is zero, the decision function returns
  \<open>False\<close>; so \<open>EventDict\<close> keeps the payload as it is, reporting \<open>False\<close>, and
  \<open>get_interfaces\<close> parses the payload as not normalized again.
\<close>

theorem renormalization_gate_closed:
  "(\<not> has_key d ''event_id'' \<or> \<not> truthy (dict_get d ''event_id'') \<or> sample_rate E = 0) \<longrightarrow>
     should_skip_to_python E d = Inr False \<and>
     EventDict_init E d = Inr (d, False) \<and>
     (data_of E ev = d \<longrightarrow> get_interfaces E ev = Inr (interfaces_get_interfaces E d False))"
proof
  assume h: "\<not> has_key d ''event_id'' \<or> \<not> truthy (dict_get d ''event_id'') \<or> sample_rate E = 0"
  have "\<not> has_key d ''event_id'' \<Longrightarrow> \<not> truthy (dict_get d ''event_id'')"
    by (simp add: dict_get_missing)
  with h have k: "\<not> truthy (dict_get d ''event_id'') \<or> sample_rate E = 0" by blast
  then have s: "should_skip_to_python E d = Inr False"
    by (auto simp: should_skip_to_python_def Let_def)
  then show "should_skip_to_python E d = Inr False \<and>
     EventDict_init E d = Inr (d, False) \<and>
     (data_of E ev = d \<longrightarrow> get_interfaces E ev = Inr (interfaces_get_interfaces E d False))"
    by (simp add: EventDict_init_def get_interfaces_def)
qed


theorem renormalization_gate_closed_witness:
  "should_skip_to_python env_always [] = Inr False \<and>
   should_skip_to_python env_always [(''event_id'', PStr [])] = Inr False \<and>
   should_skip_to_python env0 [(''event_id'', PStr ''abc'')] = Inr False \<and>
   EventDict_init env0 [(''event_id'', PStr ''abc'')] = Inr ([(''event_id'', PStr ''abc'')], False) \<and>
   get_interfaces env0 (Relational (example_event [(''event_id'', PStr ''abc'')])) = Inr []"
proof -
  have a: "\<not> has_key [] ''event_id''" by (simp add: has_key_def keys_def)
  have b: "\<not> truthy (dict_get [(''event_id'', PStr [])] ''event_id'')"
    by (simp add: dict_get_def dict_get_default_def)
  have c: "sample_rate env0 = 0" by (simp add: env0_def)
  have d: "data_of env0 (Relational (example_event [(''event_id'', PStr ''abc'')])) = [(''event_id'', PStr ''abc'')]"
    by (simp add: example_event_def)
  have e: "interfaces_get_interfaces env0 [(''event_id'', PStr ''abc'')] False = []"
    by (simp add: env0_def)
  from a b c d e
    renormalization_gate_closed [of "[]" env_always]
    renormalization_gate_closed [of "[(''event_id'', PStr [])]" env_always]
    renormalization_gate_closed [of "[(''event_id'', PStr ''abc'')]" env0
       "Relational (example_event [(''event_id'', PStr ''abc'')])"]
  show ?thesis by simp
qed

section \<open>Neighbours of a relational event\<close>













section \<open>The external issue endpoint: missing fields\<close>

text \<open>
  C9, as the code has it. When the body of the request lacks one of \<open>groupId\<close>,
  \<open>action\<close>, \<open>uri\<close>, the endpoint answers with a client error and the issue link creator
  is not called: status 400 when the feature is on for the organization, status 404
  when it is off.
\<close>

theorem post_missing_field:
  "\<not> set [''groupId'', ''action'', ''uri''] \<subseteq> set (keys request_DATA) \<longrightarrow>
     snd (post V request_DATA) = [] \<and>
     fst (post V request_DATA) = Response (if features_has V then 400 else 404) PNone"
  by (simp add: post_def)

theorem post_missing_field_witness:
  "post endpoint_on example_body = (Response 400 PNone, []) \<and>
   post endpoint_off example_body = (Response 404 PNone, [])"
proof -
  have a: "\<not> set [''groupId'', ''action'', ''uri''] \<subseteq> set (keys example_body)"
    by (simp add: keys_def example_body_def)
  have b: "features_has endpoint_on" "\<not> features_has endpoint_off"
    by (simp_all add: endpoint_on_def endpoint_off_def)
  from a b post_missing_field [of example_body endpoint_on]
    post_missing_field [of example_body endpoint_off]
  show ?thesis by (simp add: prod_eq_iff)
qed

text \<open>
  The status is not 400 throughout: with the feature off, the answer to a body without
  \<open>uri\<close> is 404.
\<close>

theorem post_feature_off_counterexample:
  "\<not> set [''groupId'', ''action'', ''uri''] \<subseteq> set (keys example_body) \<and>
   status (fst (post endpoint_off example_body)) = 404"
  by (simp add: keys_def example_body_def post_def endpoint_off_def)

end
